theory Spec2Isabelle
  imports Main "HOL-Library.AList"
begin

section \<open>Errors, time and the services the store calls\<close>

text \<open>
  Go's \<open>error\<close> values that occur in \<open>s3storage.go\<close>: the SDK's \<open>*types.NoSuchKey\<close>,
  any other error of the SDK, and errors made by \<open>fmt.Errorf\<close> from a constant string.
  Each carries the text that \<open>err.Error()\<close> returns.
\<close>

datatype error = NoSuchKey string | ApiError string | Errorf string

fun Error :: "error \<Rightarrow> string" where
  "Error (NoSuchKey m) = m"
| "Error (ApiError m) = m"
| "Error (Errorf m) = m"

text \<open>\<open>errors.As(err, &nsk)\<close> with \<open>nsk\<close> of type \<open>*types.NoSuchKey\<close>.\<close>

fun errors_As_NoSuchKey :: "error \<Rightarrow> bool" where
  "errors_As_NoSuchKey (NoSuchKey m) = True"
| "errors_As_NoSuchKey (ApiError m) = False"
| "errors_As_NoSuchKey (Errorf m) = False"

text \<open>
  The errors that \<open>Lock\<close> builds with \<open>fmt.Errorf\<close> from a format and arguments; the
  arguments are kept instead of the formatted text.
\<close>

datatype lock_error =
    CreatingLockFile error
  | AccessingLockFile error
  | PossibleDeadlock int string

text \<open>
  Instants and durations are counted in nanoseconds, as \<open>time.Duration\<close> is.
  \<open>Sub\<close> is \<open>Time.Sub\<close>, which saturates at the ends of the 64-bit range.
\<close>

definition Second :: int where "Second = 1000000000"
definition Hour :: int where "Hour = 3600 * Second"

definition maxDuration :: int where "maxDuration = 2 ^ 63 - 1"
definition minDuration :: int where "minDuration = - (2 ^ 63)"

definition Sub :: "int \<Rightarrow> int \<Rightarrow> int" where
  "Sub t u = (if t - u > maxDuration then maxDuration
              else if t - u < minDuration then minDuration
              else t - u)"

definition lockFileExists :: string where
  "lockFileExists = ''Lock file for already exists''"

definition staleLockDuration :: int where
  "staleLockDuration = 2 * Hour"

definition fileLockPollInterval :: int where
  "fileLockPollInterval = 1 * Second"

text \<open>
  What \<open>GetObject\<close> returns on success. \<open>Body\<close> is the outcome of reading the body to
  its end (\<open>ioutil.ReadAll\<close>); \<open>LastModified\<close> is taken to be set, as S3 sets it on
  every object it returns.
\<close>

record GetObjectOutput =
  Body :: "error + string"
  ContentLength :: int
  LastModified :: int

record KeyInfo =
  Key :: string
  Modified :: int
  Size :: int
  IsTerminal :: bool

text \<open>
  The \<open>*s3.Client\<close> of the SDK is outside the repository. It is a parameter of the
  model: four operations on a state \<open>'w\<close> of the world outside the process, each
  taking the bucket and the object key (or the key prefix) of its input. Each returns
  its reply and the world after the call. \<open>ListObjects\<close> returns the keys of the
  \<open>Contents\<close> of its output.
\<close>

record 'w Client =
  GetObject :: "string \<Rightarrow> string \<Rightarrow> 'w \<Rightarrow> (error + GetObjectOutput) \<times> 'w"
  PutObject :: "string \<Rightarrow> string \<Rightarrow> string \<Rightarrow> 'w \<Rightarrow> error option \<times> 'w"
  DeleteObject :: "string \<Rightarrow> string \<Rightarrow> 'w \<Rightarrow> error option \<times> 'w"
  ListObjects :: "string \<Rightarrow> string \<Rightarrow> 'w \<Rightarrow> (error + string list) \<times> 'w"

text \<open>
  What else the process takes from outside: the clock (\<open>time.Now\<close>), \<open>time.Sleep\<close>
  and the key sanitizer \<open>StorageKeys.Safe\<close> of certmagic.
\<close>

record 'w Runtime =
  Now :: "'w \<Rightarrow> int"
  Sleep :: "int \<Rightarrow> 'w \<Rightarrow> 'w"
  Safe :: "string \<Rightarrow> string"

definition Since :: "'w Runtime \<Rightarrow> 'w \<Rightarrow> int \<Rightarrow> int" where
  "Since rt w t = Sub (Now rt w) t"

text \<open>A context is cancelled from some instant on, or never.\<close>

datatype Context = Background | CancelledAt int

record 'w S3Store =
  prefix :: string
  bucket :: string
  client :: "'w Client"

section \<open>Paths\<close>

text \<open>
  \<open>filepath.Clean\<close> and \<open>filepath.Join\<close> of Go's library, for the separator \<open>/\<close>.
  \<open>Clean\<close> reads the path element by element and keeps the elements of the result on
  a stack, the last one first: an empty element and \<open>.\<close> are dropped, \<open>..\<close> removes
  the element before it when that is a name, is dropped at the top of a rooted path,
  and is kept otherwise.
\<close>

fun split_sep :: "string \<Rightarrow> string list" where
  "split_sep [] = [[]]"
| "split_sep (c # cs) =
     (if c = CHR ''/'' then [] # split_sep cs
      else (case split_sep cs of
              [] \<Rightarrow> [[c]]
            | e # es \<Rightarrow> (c # e) # es))"

fun join_sep :: "string list \<Rightarrow> string" where
  "join_sep [] = []"
| "join_sep [e] = e"
| "join_sep (e # es) = e @ CHR ''/'' # join_sep es"

definition clean_step :: "bool \<Rightarrow> string list \<Rightarrow> string \<Rightarrow> string list" where
  "clean_step rooted out e =
     (if e = [] \<or> e = ''.'' then out
      else if e = ''..'' then
        (case out of
           [] \<Rightarrow> if rooted then [] else [e]
         | x # xs \<Rightarrow> if x \<noteq> ''..'' then xs else if rooted then out else e # out)
      else e # out)"

definition Clean :: "string \<Rightarrow> string" where
  "Clean path =
     (if path = [] then ''.''
      else
        let rooted = (hd path = CHR ''/'');
            out = foldl (clean_step rooted) [] (split_sep path)
        in if rooted then CHR ''/'' # join_sep (rev out)
           else if out = [] then ''.''
           else join_sep (rev out))"

fun Join :: "string list \<Rightarrow> string" where
  "Join [] = []"
| "Join (e # es) = (if e = [] then Join es else Clean (join_sep (e # es)))"

text \<open>\<open>filepath.FromSlash\<close> changes nothing where the separator is \<open>/\<close>.\<close>

definition FromSlash :: "string \<Rightarrow> string" where
  "FromSlash p = p"

text \<open>\<open>strings.HasPrefix\<close>.\<close>

definition HasPrefix :: "string \<Rightarrow> string \<Rightarrow> bool" where
  "HasPrefix s p = (take (length p) s = p)"

definition Filename :: "'w S3Store \<Rightarrow> string \<Rightarrow> string" where
  "Filename s key = Join [prefix s, FromSlash key]"

definition lockDir :: "'w S3Store \<Rightarrow> string" where
  "lockDir s = Join [prefix s, ''locks'']"

definition lockFileName :: "'w Runtime \<Rightarrow> 'w S3Store \<Rightarrow> string \<Rightarrow> string" where
  "lockFileName rt s key = Join [lockDir s, Safe rt key @ ''.lock'']"

section \<open>The value store\<close>

definition Exists :: "'w S3Store \<Rightarrow> string \<Rightarrow> 'w \<Rightarrow> bool \<times> 'w" where
  "Exists s key w =
     (case GetObject (client s) (bucket s) (Filename s key) w of
        (Inr out, w') \<Rightarrow> (True, w')
      | (Inl err, w') \<Rightarrow> (\<not> errors_As_NoSuchKey err, w'))"

definition Store :: "'w S3Store \<Rightarrow> string \<Rightarrow> string \<Rightarrow> 'w \<Rightarrow> error option \<times> 'w" where
  "Store s key val w =
     (case PutObject (client s) (bucket s) (Filename s key) val w of
        (Some err, w') \<Rightarrow> (Some err, w')
      | (None, w') \<Rightarrow> (None, w'))"

definition Load :: "'w S3Store \<Rightarrow> string \<Rightarrow> 'w \<Rightarrow> (error + string) \<times> 'w" where
  "Load s key w =
     (case GetObject (client s) (bucket s) (Filename s key) w of
        (Inl err, w') \<Rightarrow> (Inl err, w')
      | (Inr out, w') \<Rightarrow>
          (case Body out of
             Inl err \<Rightarrow> (Inl err, w')
           | Inr b \<Rightarrow> (Inr b, w')))"

definition Delete :: "'w S3Store \<Rightarrow> string \<Rightarrow> 'w \<Rightarrow> error option \<times> 'w" where
  "Delete s key w =
     (case DeleteObject (client s) (bucket s) (Filename s key) w of
        (Some err, w') \<Rightarrow> (Some err, w')
      | (None, w') \<Rightarrow> (None, w'))"

definition List_s3 :: "'w S3Store \<Rightarrow> string \<Rightarrow> bool \<Rightarrow> 'w \<Rightarrow> (error + string list) \<times> 'w" where
  "List_s3 s pre recursive w =
     (let prefixPath = Filename s pre in
      case ListObjects (client s) (bucket s) prefixPath w of
        (Inl err, w') \<Rightarrow> (Inl err, w')
      | (Inr contents, w') \<Rightarrow> (Inr (filter (\<lambda>k. HasPrefix k pre) contents), w'))"

definition Stat :: "'w S3Store \<Rightarrow> string \<Rightarrow> 'w \<Rightarrow> (error + KeyInfo) \<times> 'w" where
  "Stat s key w =
     (case GetObject (client s) (bucket s) key w of
        (Inl err, w') \<Rightarrow> (Inl err, w')
      | (Inr out, w') \<Rightarrow>
          (Inr \<lparr>Key = key, Modified = LastModified out, Size = ContentLength out,
                IsTerminal = True\<rparr>, w'))"

section \<open>The lock\<close>

definition errNoSuchKey :: "error option \<Rightarrow> bool" where
  "errNoSuchKey err =
     (case err of
        None \<Rightarrow> False
      | Some e \<Rightarrow> errors_As_NoSuchKey e)"

definition fileLockIsStale :: "'w Runtime \<Rightarrow> 'w S3Store \<Rightarrow> KeyInfo \<Rightarrow> 'w \<Rightarrow> bool" where
  "fileLockIsStale rt s info w = (Since rt w (Modified info) > staleLockDuration)"

definition createLockFile :: "'w S3Store \<Rightarrow> string \<Rightarrow> 'w \<Rightarrow> error option \<times> 'w" where
  "createLockFile s filename w =
     (case Exists s filename w of
        (True, w1) \<Rightarrow> (Some (Errorf lockFileExists), w1)
      | (False, w1) \<Rightarrow>
          (case PutObject (client s) (bucket s) filename ''lock'' w1 of
             (Some err, w2) \<Rightarrow> (Some err, w2)
           | (None, w2) \<Rightarrow> (None, w2)))"

definition deleteLockFile :: "'w S3Store \<Rightarrow> string \<Rightarrow> 'w \<Rightarrow> error option \<times> 'w" where
  "deleteLockFile s keyPath w =
     (case DeleteObject (client s) (bucket s) keyPath w of
        (Some err, w') \<Rightarrow> (Some err, w')
      | (None, w') \<Rightarrow> (None, w'))"

text \<open>
  One pass through the body of the \<open>for\<close> loop of \<open>Lock\<close>: it returns from \<open>Lock\<close>
  or goes round again. The two messages that the source prints are left out.
\<close>

datatype 'w pass = Returned "lock_error option" 'w | Again 'w

definition Lock_pass ::
  "'w Runtime \<Rightarrow> 'w S3Store \<Rightarrow> string \<Rightarrow> int \<Rightarrow> string \<Rightarrow> 'w \<Rightarrow> 'w pass" where
  "Lock_pass rt s key start lockFile w =
     (case createLockFile s lockFile w of
        (None, w1) \<Rightarrow> Returned None w1
      | (Some err, w1) \<Rightarrow>
          if Error err \<noteq> lockFileExists then Returned (Some (CreatingLockFile err)) w1
          else
            (case Stat s lockFile w1 of
               (Inl err, w2) \<Rightarrow>
                 if errNoSuchKey (Some err) then Again w2
                 else Returned (Some (AccessingLockFile err)) w2
             | (Inr info, w2) \<Rightarrow>
                 if fileLockIsStale rt s info w2 then
                   (case deleteLockFile s lockFile w2 of (del, w3) \<Rightarrow> Again w3)
                 else if Since rt w2 start > staleLockDuration * 2 then
                   Returned (Some (PossibleDeadlock (Since rt w2 start) key)) w2
                 else Again (Sleep rt fileLockPollInterval w2)))"

text \<open>
  The loop has no bound of its own, so the model counts passes: \<open>None\<close> says that
  the loop is still running after \<open>n\<close> passes.
\<close>

fun Lock_loop ::
  "nat \<Rightarrow> 'w Runtime \<Rightarrow> 'w S3Store \<Rightarrow> string \<Rightarrow> int \<Rightarrow> string \<Rightarrow> 'w
     \<Rightarrow> (lock_error option \<times> 'w) option" where
  "Lock_loop 0 rt s key start lockFile w = None"
| "Lock_loop (Suc n) rt s key start lockFile w =
     (case Lock_pass rt s key start lockFile w of
        Returned r w' \<Rightarrow> Some (r, w')
      | Again w' \<Rightarrow> Lock_loop n rt s key start lockFile w')"

definition Lock ::
  "nat \<Rightarrow> 'w Runtime \<Rightarrow> 'w S3Store \<Rightarrow> Context \<Rightarrow> string \<Rightarrow> 'w
     \<Rightarrow> (lock_error option \<times> 'w) option" where
  "Lock n rt s ctx key w =
     (let start = Now rt w;
          lockFile = lockFileName rt s key
      in Lock_loop n rt s key start lockFile w)"

definition Unlock :: "'w Runtime \<Rightarrow> 'w S3Store \<Rightarrow> string \<Rightarrow> 'w \<Rightarrow> error option \<times> 'w" where
  "Unlock rt s key w = deleteLockFile s (lockFileName rt s key) w"

section \<open>A bucket in memory\<close>

text \<open>
  The object store as the interface of the spec describes it: every object of a bucket
  has its content and the instant of its last write, reading an absent object is the
  error \<open>NoSuchKey\<close>, writing replaces the object, deleting an absent object is no
  error, and listing returns every key with the given prefix. While \<open>outage\<close> holds
  an error, every call fails with it and changes nothing. No call takes time, and no
  other process writes.
\<close>

record Entry =
  content :: string
  modified :: int

record World =
  objects :: "((string \<times> string) \<times> Entry) list"
  clock :: int
  outage :: "error option"

definition noSuchKey :: error where
  "noSuchKey = NoSuchKey ''NoSuchKey: The specified key does not exist.''"

definition memGetObject :: "string \<Rightarrow> string \<Rightarrow> World \<Rightarrow> (error + GetObjectOutput) \<times> World" where
  "memGetObject b k w =
     (case outage w of
        Some e \<Rightarrow> (Inl e, w)
      | None \<Rightarrow>
          (case map_of (objects w) (b, k) of
             None \<Rightarrow> (Inl noSuchKey, w)
           | Some ob \<Rightarrow>
               (Inr \<lparr>Body = Inr (content ob), ContentLength = int (length (content ob)),
                     LastModified = modified ob\<rparr>, w)))"

definition memPutObject :: "string \<Rightarrow> string \<Rightarrow> string \<Rightarrow> World \<Rightarrow> error option \<times> World" where
  "memPutObject b k v w =
     (case outage w of
        Some e \<Rightarrow> (Some e, w)
      | None \<Rightarrow>
          (None, w\<lparr>objects :=
                     AList.update (b, k) \<lparr>content = v, modified = clock w\<rparr> (objects w)\<rparr>))"

definition memDeleteObject :: "string \<Rightarrow> string \<Rightarrow> World \<Rightarrow> error option \<times> World" where
  "memDeleteObject b k w =
     (case outage w of
        Some e \<Rightarrow> (Some e, w)
      | None \<Rightarrow> (None, w\<lparr>objects := AList.delete (b, k) (objects w)\<rparr>))"

definition memListObjects :: "string \<Rightarrow> string \<Rightarrow> World \<Rightarrow> (error + string list) \<times> World" where
  "memListObjects b p w =
     (case outage w of
        Some e \<Rightarrow> (Inl e, w)
      | None \<Rightarrow>
          (Inr (map (\<lambda>x. snd (fst x))
                  (filter (\<lambda>x. fst (fst x) = b \<and> HasPrefix (snd (fst x)) p) (objects w))), w))"

definition memClient :: "World Client" where
  "memClient =
     \<lparr>GetObject = memGetObject, PutObject = memPutObject,
      DeleteObject = memDeleteObject, ListObjects = memListObjects\<rparr>"

definition memSleep :: "int \<Rightarrow> World \<Rightarrow> World" where
  "memSleep d w = (if d \<le> 0 then w else w\<lparr>clock := clock w + d\<rparr>)"

definition memRuntime :: "(string \<Rightarrow> string) \<Rightarrow> World Runtime" where
  "memRuntime safe = \<lparr>Now = clock, Sleep = memSleep, Safe = safe\<rparr>"

text \<open>The store that \<open>NewS3Store\<close> builds, on the bucket in memory.\<close>

definition NewS3Store :: "string \<Rightarrow> World S3Store" where
  "NewS3Store bucketName = \<lparr>prefix = ''certmagic'', bucket = bucketName, client = memClient\<rparr>"

section \<open>Evaluation of the bucket in memory\<close>

lemma memClient_sel [simp]:
  "GetObject memClient = memGetObject"
  "PutObject memClient = memPutObject"
  "DeleteObject memClient = memDeleteObject"
  "ListObjects memClient = memListObjects"
  by (simp_all add: memClient_def)

lemma memRuntime_sel [simp]:
  "Now (memRuntime safe) = clock"
  "Sleep (memRuntime safe) = memSleep"
  "Safe (memRuntime safe) = safe"
  by (simp_all add: memRuntime_def)

lemma NewS3Store_sel [simp]:
  "prefix (NewS3Store b) = ''certmagic''"
  "bucket (NewS3Store b) = b"
  "client (NewS3Store b) = memClient"
  by (simp_all add: NewS3Store_def)

section \<open>Exists\<close>

text \<open>
  C1, as the code has it. \<open>Exists\<close> asks the client for the object at \<open>Filename key\<close>
  and answers false exactly when the reply is the error \<open>NoSuchKey\<close>: it answers true
  when the object is returned and also on every other error. On the bucket in memory,
  outside an outage, it answers true iff an object is stored at that path.
\<close>

theorem Exists_false_iff_NoSuchKey:
  "fst (Exists s key w) =
     (case fst (GetObject (client s) (bucket s) (Filename s key) w) of
        Inr out \<Rightarrow> True
      | Inl err \<Rightarrow> \<not> errors_As_NoSuchKey err)
   \<and> (client s = memClient \<and> outage w = None \<longrightarrow>
        fst (Exists s key w) = (map_of (objects w) (bucket s, Filename s key) \<noteq> None))"
  by (auto simp: Exists_def memGetObject_def noSuchKey_def
           split: prod.splits sum.splits option.splits)

theorem Exists_false_iff_NoSuchKey_witness:
  "fst (Exists (NewS3Store ''b'') ''k''
         \<lparr>objects = [((''b'', ''certmagic/k''), \<lparr>content = ''v'', modified = 5\<rparr>)],
          clock = 7, outage = None\<rparr>)
   \<and> \<not> fst (Exists (NewS3Store ''b'') ''j''
         \<lparr>objects = [((''b'', ''certmagic/k''), \<lparr>content = ''v'', modified = 5\<rparr>)],
          clock = 7, outage = None\<rparr>)"
  using Exists_false_iff_NoSuchKey
          [of "NewS3Store ''b''" "''k''"
              "\<lparr>objects = [((''b'', ''certmagic/k''), \<lparr>content = ''v'', modified = 5\<rparr>)],
                clock = 7, outage = None\<rparr>"]
        Exists_false_iff_NoSuchKey
          [of "NewS3Store ''b''" "''j''"
              "\<lparr>objects = [((''b'', ''certmagic/k''), \<lparr>content = ''v'', modified = 5\<rparr>)],
                clock = 7, outage = None\<rparr>"]
  by (simp add: Filename_def FromSlash_def Clean_def clean_step_def memGetObject_def
        noSuchKey_def)

text \<open>
  C1 as the spec states it fails: with no object in the bucket and a backend that
  answers with an error other than \<open>NoSuchKey\<close>, \<open>Exists\<close> returns true.
\<close>

theorem Exists_other_error_counterexample:
  "fst (Exists (NewS3Store ''b'') ''k''
         \<lparr>objects = [], clock = 7, outage = Some (ApiError ''RequestTimeout'')\<rparr>) = True"
  by (simp add: Exists_def memGetObject_def)

end
